theory Spec2Isabelle
  imports Main "HOL-Library.Word"
begin

unbundle bit_operations_syntax

section \<open>Tokens and the expression tree\<close>

text \<open>
  The token kinds of the scanner, in the order of their declaration.
\<close>

datatype SyntaxKind =
    SK_Unknown | SK_EndOfFile
  | SK_NumberLiteral | SK_StringLiteral
  | SK_OpenParen | SK_CloseParen | SK_OpenBracket | SK_CloseBracket
  | SK_Dot | SK_DotDotDot | SK_Comma
  | SK_LessThan | SK_GreaterThan | SK_LessThanEquals | SK_GreaterThanEquals
  | SK_EqualsEquals | SK_EqualsEqualsEquals
  | SK_ExclamationEquals | SK_ExclamationEqualsEquals
  | SK_Plus | SK_Minus | SK_Asterisk | SK_Slash | SK_Percent
  | SK_Ampersand | SK_Bar | SK_Caret
  | SK_AmpersandAmpersand | SK_BarBar | SK_QuestionQuestion
  | SK_Exclamation | SK_ExclamationDot | SK_ExclamationExclamation
  | SK_Tilde | SK_Question | SK_Colon
  | SK_Equals | SK_PlusEquals | SK_MinusEquals | SK_AsteriskEquals
  | SK_SlashEquals | SK_PercentEquals | SK_LessThanLessThanEquals
  | SK_GreaterThanGreaterThanEquals
  | SK_GreaterThanGreaterThanGreaterThanEquals
  | SK_AmpersandEquals | SK_BarEquals | SK_CaretEquals
  | SK_Identifier
  | SK_TrueKeyword | SK_FalseKeyword | SK_NullKeyword | SK_ThisKeyword
  | SK_CtxKeyword | SK_TypeofKeyword

text \<open>
  The expression nodes. A selector keeps the text of its name identifier and
  the assert flag; a call keeps its callee, its argument list and whether the
  \<open>...\<close> token is present. Source positions are not part of this tree.
\<close>

datatype Expression =
    Identifier string
  | PrefixUnaryExpression SyntaxKind Expression
  | TypeOfExpression Expression
  | BinaryExpression Expression SyntaxKind Expression
  | ConditionalExpression Expression Expression Expression
  | ArrayLiteralExpression "Expression list"
  | ParenthesizedExpression Expression
  | LiteralExpression SyntaxKind string
  | SelectorExpression Expression string bool
  | CallExpression Expression "Expression list" bool

section \<open>Runtime values\<close>

text \<open>
  A decimal of the external decimal library: a finite value
  \<open>coefficient * 10 ^ exponent\<close>, an infinity (the flag is the sign bit) or
  a NaN. A \<open>float64\<close> is the number it stands for: a finite value
  \<open>mantissa * 2 ^ exponent\<close>, an infinity or a NaN.
\<close>

datatype big = BFin int int | BInf bool | BNaN

datatype float64 = F64 int int | F64Inf bool | F64NaN

text \<open>
  A function value is a built-in of the process-wide table, known by its
  name, or a function of the host, known by an identity.
\<close>

datatype fn = Builtin string | HostFn nat

text \<open>
  The dynamic values the runner handles (Go's \<open>interface{}\<close>):
  the nil interface, \<open>bool\<close>, \<open>string\<close>, \<open>*decimal.Big\<close>, a host integer
  (\<open>int\<close>, \<open>int32\<close>, \<open>int64\<close>) or float before normalisation, a
  \<open>time.Time\<close>, a \<open>[]interface{}\<close>, a \<open>map[string]interface{}\<close> of the host
  (never mutated by a formula), the runner's own \<open>this\<close> map (a reference:
  assignments made later are seen through it), a function, the context, a
  typed nil pointer of the host whose type is not \<open>*decimal.Big\<close>
  (\<open>VNilPtr\<close>), and the nil \<open>*decimal.Big\<close> (\<open>VNilBig\<close>). A type switch of
  the runner takes the nil \<open>*decimal.Big\<close> for a decimal, as Go does.
\<close>

datatype val =
    VNil
  | VBool bool
  | VStr string
  | VNum big
  | VInt "64 word"
  | VFloat float64
  | VTime nat
  | VArr "val list"
  | VObj "(string \<times> val) list"
  | VThis
  | VFun fn
  | VCtx
  | VNilPtr
  | VNilBig

text \<open>The failures of an evaluation: the errors the runner returns, and a Go panic.\<close>

datatype error =
    UnknownExpressionType
  | NullAttribute string
  | CallNameNotSupported
  | SelectorNameNotSupported
  | NotFunction string
  | CallFailed string
  | UnaryNotSupported SyntaxKind
  | UnknownUnaryExpression
  | AssignLeftNotIdentifier
  | AssignLeftNotDollar string
  | NotNumberLiteral string
  | UnknownLiteralExpression
  | RuntimePanic

section \<open>The external libraries\<close>

text \<open>
  The decimal library, Go's float conversions and formatting, its interface
  equality on host values and the reflective invocation of a function value
  are not code of this repository. They are taken as parameters: every
  function below that reaches one of them receives this record, and the
  theorems hold for every such record.

  \<^item> \<open>newDecimalBig\<close> is the fresh decimal of the repository's helper of that
    name (not under src/); \<open>big_Add L x y\<close> stands for
    \<open>newDecimalBig().Add(x, y)\<close>, and likewise the other operations;
  \<^item> \<open>big_SetString\<close> is \<open>None\<close> where the library reports failure;
  \<^item> \<open>big_Int64\<close> and \<open>big_Float64\<close> are the first results of \<open>Int64()\<close> and
    \<open>Float64()\<close> (the runner drops the second);
  \<^item> the operations of the record take decimals that exist. A method of the
    library that the runner calls on, or with, a nil \<open>*decimal.Big\<close>
    dereferences it, which is a Go panic, with two exceptions that are left
    to the library: \<open>nil_String\<close> is \<open>String()\<close> on the nil decimal and
    \<open>nil_Cmp_nil\<close> is \<open>Cmp\<close> of the nil decimal with itself;
  \<^item> \<open>float64_of_int\<close> is Go's conversion \<open>float64(n)\<close>;
  \<^item> \<open>FormatFloat\<close> is \<open>strconv.FormatFloat(f, 'f', -1, 64)\<close>;
  \<^item> \<open>Sprintf_v\<close> is \<open>fmt.Sprintf("%v", v)\<close> on a value that is neither nil, a
    bool, a string nor a decimal;
  \<^item> \<open>iface_eq\<close> is Go's \<open>==\<close> on two non-nil interface values that are
    neither bools, strings nor decimals (it panics on two slices, maps or
    functions of one type);
  \<^item> \<open>invoke\<close> is the reflective call of a function value with the evaluated
    arguments: the arity checks, the spread of the last argument, the
    conversion of each argument to the parameter type, and the call itself.
\<close>

record lib =
  newDecimalBig :: big
  big_SetUint64 :: "64 word \<Rightarrow> big"
  big_SetFloat64 :: "float64 \<Rightarrow> big"
  big_SetString :: "string \<Rightarrow> big option"
  big_SetNaN :: big
  big_Neg :: "big \<Rightarrow> big"
  big_Add :: "big \<Rightarrow> big \<Rightarrow> big"
  big_Sub :: "big \<Rightarrow> big \<Rightarrow> big"
  big_Mul :: "big \<Rightarrow> big \<Rightarrow> big"
  big_Quo :: "big \<Rightarrow> big \<Rightarrow> big"
  big_Rem :: "big \<Rightarrow> big \<Rightarrow> big"
  big_Round :: "big \<Rightarrow> int \<Rightarrow> big"
  big_Cmp :: "big \<Rightarrow> big \<Rightarrow> int"
  big_IsNaN :: "big \<Rightarrow> bool"
  big_Int64 :: "big \<Rightarrow> 64 word"
  big_Float64 :: "big \<Rightarrow> float64"
  big_String :: "big \<Rightarrow> string"
  nil_String :: "error + string"
  nil_Cmp_nil :: "error + int"
  float64_of_int :: "64 word \<Rightarrow> float64"
  FormatFloat :: "float64 \<Rightarrow> string"
  Sprintf_v :: "val \<Rightarrow> string"
  iface_eq :: "val \<Rightarrow> val \<Rightarrow> error + bool"
  invoke :: "fn \<Rightarrow> string \<Rightarrow> val list \<Rightarrow> bool \<Rightarrow> error + val"

section \<open>Helpers from Go's standard library\<close>

text \<open>\<open>strings.HasPrefix\<close> and \<open>strings.Join\<close>.\<close>

definition HasPrefix :: "string \<Rightarrow> string \<Rightarrow> bool" where
  "HasPrefix s p = (take (length p) s = p)"

fun Join :: "string list \<Rightarrow> string \<Rightarrow> string" where
  "Join [] sep = []"
| "Join [x] sep = x"
| "Join (x # y # ys) sep = x @ sep @ Join (y # ys) sep"

text \<open>Go compares strings byte by byte.\<close>

fun str_less :: "string \<Rightarrow> string \<Rightarrow> bool" where
  "str_less [] [] = False"
| "str_less [] (y # ys) = True"
| "str_less (x # xs) [] = False"
| "str_less (x # xs) (y # ys) =
     (if (of_char x :: nat) < of_char y then True
      else if (of_char y :: nat) < of_char x then False
      else str_less xs ys)"

text \<open>
  \<open>strconv.Atoi\<close>: an optional sign and decimal digits, the value within the
  range of a 64-bit \<open>int\<close>; \<open>None\<close> is the error result.
\<close>

definition isDigitChar :: "char \<Rightarrow> bool" where
  "isDigitChar c = (48 \<le> (of_char c :: nat) \<and> (of_char c :: nat) \<le> 57)"

primrec digits_acc :: "string \<Rightarrow> nat \<Rightarrow> nat option" where
  "digits_acc [] acc = Some acc"
| "digits_acc (c # cs) acc =
     (if isDigitChar c then digits_acc cs (acc * 10 + (of_char c - 48)) else None)"

definition Atoi :: "string \<Rightarrow> 64 word option" where
  "Atoi s =
     (let neg = (case s of [] \<Rightarrow> False | c # cs \<Rightarrow> c = CHR ''-'');
          ds = (case s of [] \<Rightarrow> []
                | c # cs \<Rightarrow> if c = CHR ''-'' \<or> c = CHR ''+'' then cs else s)
      in if ds = [] then None
         else (case digits_acc ds 0 of
                 None \<Rightarrow> None
               | Some n \<Rightarrow>
                   (let i = (if neg then - int n else int n)
                    in if - (2 ^ 63) \<le> i \<and> i < 2 ^ 63 then Some (word_of_int i) else None)))"

text \<open>\<open>math.NaN()\<close>.\<close>

definition math_NaN :: float64 where
  "math_NaN = F64NaN"

section \<open>The runner\<close>

text \<open>
  The runner holds the \<open>this\<close> map (nil until it is set or first assigned to)
  and the \<open>value\<close> map of \<open>Set\<close>/\<open>Get\<close>. A Go map is an association list
  read with \<open>map_of\<close>; storing a key replaces its entry.
\<close>

record Runner =
  this :: "(string \<times> val) list option"
  valueMap :: "(string \<times> val) list"

definition map_store :: "(string \<times> val) list \<Rightarrow> string \<Rightarrow> val \<Rightarrow> (string \<times> val) list" where
  "map_store m key v = (key, v) # filter (\<lambda>p. fst p \<noteq> key) m"

definition map_load :: "(string \<times> val) list option \<Rightarrow> string \<Rightarrow> val" where
  "map_load m key =
     (case m of None \<Rightarrow> VNil
      | Some kvs \<Rightarrow> (case map_of kvs key of None \<Rightarrow> VNil | Some v \<Rightarrow> v))"

definition NewRunner :: Runner where
  "NewRunner = \<lparr>this = None, valueMap = []\<rparr>"

definition SetThis :: "Runner \<Rightarrow> (string \<times> val) list option \<Rightarrow> Runner" where
  "SetThis r m = r\<lparr>this := m\<rparr>"

definition SetThisValue :: "Runner \<Rightarrow> string \<Rightarrow> val \<Rightarrow> Runner" where
  "SetThisValue r key v =
     r\<lparr>this := Some (map_store (case this r of None \<Rightarrow> [] | Some m \<Rightarrow> m) key v)\<rparr>"

text \<open>The process-wide table \<open>innerMap\<close> filled by \<open>init\<close>.\<close>

definition builtin_names :: "string list" where
  "builtin_names =
     [''now'', ''toDay'', ''date'', ''addDate'', ''year'', ''month'', ''day'', ''hour'',
      ''minute'', ''second'', ''millSecond'', ''weekDay'', ''timeFormat'', ''useTimezone'',
      ''abs'', ''ceil'', ''exp'', ''floor'', ''ln'', ''log'', ''max'', ''min'', ''round'',
      ''roundBank'', ''roundCash'', ''sqrt'', ''finite'',
      ''startWith'', ''endWith'', ''contains'', ''find'', ''includes'', ''left'', ''right'',
      ''len'', ''lower'', ''upper'', ''lpad'', ''rpad'', ''mid'', ''replace'', ''trim'',
      ''regexp'', ''mapToArr'', ''join'', ''toString'', ''toInt'', ''toFloat'']"

definition innerMap :: "string \<Rightarrow> val option" where
  "innerMap name =
     (if name = ''true'' then Some (VBool True)
      else if name = ''false'' then Some (VBool False)
      else if name \<in> set builtin_names then Some (VFun (Builtin name))
      else None)"

subsection \<open>Coercions\<close>

definition IsNull :: "val \<Rightarrow> bool" where
  "IsNull i = (i = VNil \<or> i = VNilPtr \<or> i = VNilBig)"

text \<open>
  \<open>fmt.Sprintf("%v", v)\<close>: Go prints the nil interface as \<open><nil>\<close> and a bool
  as \<open>true\<close> or \<open>false\<close>; the other values are left to the library record.
\<close>

definition fmt_Sprintf_v :: "lib \<Rightarrow> val \<Rightarrow> string" where
  "fmt_Sprintf_v L v =
     (case v of
        VNil \<Rightarrow> ''<nil>''
      | VBool b \<Rightarrow> (if b then ''true'' else ''false'')
      | _ \<Rightarrow> Sprintf_v L v)"

text \<open>
  \<open>convToString\<close>: the case \<open>*decimal.Big\<close> calls \<open>n.String()\<close>, also on the
  nil decimal.
\<close>

definition convToString :: "lib \<Rightarrow> val \<Rightarrow> error + string" where
  "convToString L v =
     (case v of
        VStr n \<Rightarrow> Inr n
      | VNum n \<Rightarrow> Inr (big_String L n)
      | VNilBig \<Rightarrow> nil_String L
      | _ \<Rightarrow> Inr (fmt_Sprintf_v L v))"

text \<open>
  \<open>convToNumber\<close> returns a \<open>*decimal.Big\<close>: \<open>Some\<close> decimal, or \<open>None\<close> for
  the nil pointer, which the case \<open>*decimal.Big\<close> returns as it came.
\<close>

definition convToNumber :: "lib \<Rightarrow> val \<Rightarrow> big option" where
  "convToNumber L v =
     (case v of
        VNum n \<Rightarrow> Some n
      | VNilBig \<Rightarrow> None
      | VStr n \<Rightarrow> Some (case big_SetString L n of None \<Rightarrow> big_SetNaN L | Some r \<Rightarrow> r)
      | VBool n \<Rightarrow> Some (if n then big_SetUint64 L 1 else big_SetUint64 L 0)
      | _ \<Rightarrow> Some (if IsNull v then big_SetUint64 L 0 else big_SetNaN L))"

text \<open>
  The library on two pointers: \<open>n1.Cmp(n2)\<close>, \<open>newDecimalBig().Op(n1, n2)\<close>
  for an arithmetic operation, and \<open>n.Int64()\<close>.
\<close>

definition ptr_Cmp :: "lib \<Rightarrow> big option \<Rightarrow> big option \<Rightarrow> error + int" where
  "ptr_Cmp L n1 n2 =
     (case n1 of
        None \<Rightarrow> (case n2 of None \<Rightarrow> nil_Cmp_nil L | Some b \<Rightarrow> Inl RuntimePanic)
      | Some a \<Rightarrow> (case n2 of None \<Rightarrow> Inl RuntimePanic | Some b \<Rightarrow> Inr (big_Cmp L a b)))"

definition ptr_Op :: "(big \<Rightarrow> big \<Rightarrow> big) \<Rightarrow> big option \<Rightarrow> big option \<Rightarrow> error + val" where
  "ptr_Op f n1 n2 =
     (case n1 of
        None \<Rightarrow> Inl RuntimePanic
      | Some a \<Rightarrow> (case n2 of None \<Rightarrow> Inl RuntimePanic | Some b \<Rightarrow> Inr (VNum (f a b))))"

definition ptr_Int64 :: "lib \<Rightarrow> big option \<Rightarrow> error + 64 word" where
  "ptr_Int64 L n = (case n of None \<Rightarrow> Inl RuntimePanic | Some a \<Rightarrow> Inr (big_Int64 L a))"

text \<open>
  \<open>toBool\<close>: the case \<open>*decimal.Big\<close> calls \<open>n.Cmp\<close> on the decimal, a nil
  dereference on the nil decimal.
\<close>

definition toBool :: "lib \<Rightarrow> val \<Rightarrow> error + bool" where
  "toBool L v =
     (case v of
        VBool n \<Rightarrow> Inr n
      | VStr n \<Rightarrow> Inr (length n > 0)
      | VNum n \<Rightarrow> Inr (big_Cmp L n (big_SetUint64 L 0) \<noteq> 0 \<and> \<not> big_IsNaN L n)
      | VNilBig \<Rightarrow> Inl RuntimePanic
      | _ \<Rightarrow> Inr (\<not> IsNull v))"

text \<open>A bool result, negated or not, of a computation that may fail.\<close>

definition boolResult :: "bool \<Rightarrow> error + bool \<Rightarrow> error + val" where
  "boolResult neg x = (case x of Inl e \<Rightarrow> Inl e | Inr b \<Rightarrow> Inr (VBool (if neg then \<not> b else b)))"

text \<open>
  \<open>formatInput\<close>: host integers and floats become decimals, everything else
  passes. Its error result is always nil and is left out. Where the library
  fails to read the formatted float the Go code passes on the nil
  \<open>*decimal.Big\<close> it got back.
\<close>

definition formatInput :: "lib \<Rightarrow> val \<Rightarrow> val" where
  "formatInput L v =
     (case v of
        VInt n \<Rightarrow> VNum (big_SetFloat64 L (float64_of_int L n))
      | VFloat n \<Rightarrow>
          (case big_SetString L (FormatFloat L n) of None \<Rightarrow> VNilBig | Some r \<Rightarrow> VNum r)
      | _ \<Rightarrow> v)"

text \<open>
  \<open>try2Float64\<close>: the case \<open>*decimal.Big\<close> calls \<open>n.Float64()\<close>, a nil
  dereference on the nil decimal.
\<close>

definition try2Float64 :: "lib \<Rightarrow> val \<Rightarrow> error + val" where
  "try2Float64 L v =
     (case v of
        VNum n \<Rightarrow> Inr (VFloat (big_Float64 L n))
      | VNilBig \<Rightarrow> Inl RuntimePanic
      | _ \<Rightarrow> Inr v)"

subsection \<open>Identifiers, literals and selectors\<close>

definition resolveIdentifier :: "Runner \<Rightarrow> string \<Rightarrow> val" where
  "resolveIdentifier r name =
     (case innerMap name of
        Some v \<Rightarrow> v
      | None \<Rightarrow> map_load (this r) name)"

text \<open>
  The literal \<open>this\<close> yields the runner's map itself: the reference \<open>VThis\<close>,
  or an empty map while the runner's map is still nil.
\<close>

definition resolveLiteralExpression :: "lib \<Rightarrow> Runner \<Rightarrow> SyntaxKind \<Rightarrow> string \<Rightarrow> error + val" where
  "resolveLiteralExpression L r tok text =
     (case tok of
        SK_TrueKeyword \<Rightarrow> Inr (VBool True)
      | SK_FalseKeyword \<Rightarrow> Inr (VBool False)
      | SK_NullKeyword \<Rightarrow> Inr VNil
      | SK_ThisKeyword \<Rightarrow> (case this r of None \<Rightarrow> Inr (VObj []) | Some m \<Rightarrow> Inr VThis)
      | SK_CtxKeyword \<Rightarrow> Inr VCtx
      | SK_NumberLiteral \<Rightarrow>
          (case big_SetString L text of
             None \<Rightarrow> Inl (NotNumberLiteral text)
           | Some n \<Rightarrow> Inr (VNum n))
      | SK_StringLiteral \<Rightarrow> Inr (VStr text)
      | _ \<Rightarrow> Inl UnknownLiteralExpression)"

definition formatNilValue :: "val \<Rightarrow> val" where
  "formatNilValue v = (if IsNull v then VNil else v)"

text \<open>
  \<open>getObjectValueFromKey\<close>: a map is read by key (a missing key and a nil
  entry both give nil); a \<open>time.Time\<close> is a struct without exported fields,
  so that \<open>FieldByName(key).Interface()\<close> panics; every other kind gives nil.
\<close>

definition getObjectValueFromKey :: "Runner \<Rightarrow> val \<Rightarrow> string \<Rightarrow> error + val" where
  "getObjectValueFromKey r v key =
     (if IsNull v then Inr VNil
      else (case v of
              VObj m \<Rightarrow> Inr (map_load (Some m) key)
            | VThis \<Rightarrow> Inr (map_load (this r) key)
            | VTime t \<Rightarrow> Inl RuntimePanic
            | _ \<Rightarrow> Inr VNil))"

fun resolveCallNames :: "Expression \<Rightarrow> error + string list" where
  "resolveCallNames (SelectorExpression e name a) =
     (case resolveCallNames e of
        Inl err \<Rightarrow> Inl err
      | Inr arr \<Rightarrow> Inr (arr @ [name]))"
| "resolveCallNames (Identifier v) = Inr [v]"
| "resolveCallNames e = Inl CallNameNotSupported"

text \<open>
  The part of \<open>resolveCallExpression\<close> after the arguments are evaluated:
  \<open>reflect.TypeOf\<close> of the nil interface is nil, so asking its kind panics;
  a value that is no function is refused; a function is invoked.
\<close>

definition callFunction :: "lib \<Rightarrow> val \<Rightarrow> string \<Rightarrow> val list \<Rightarrow> bool \<Rightarrow> error + val" where
  "callFunction L f name args ddd =
     (case f of
        VNil \<Rightarrow> Inl RuntimePanic
      | VFun g \<Rightarrow> invoke L g name args ddd
      | _ \<Rightarrow> Inl (NotFunction name))"

subsection \<open>Unary operators\<close>

definition resolvePlusUnaryExpression :: "lib \<Rightarrow> val \<Rightarrow> error + val" where
  "resolvePlusUnaryExpression L v =
     (case v of
        VNum n \<Rightarrow> Inr (VNum n)
      | VNilBig \<Rightarrow> Inr VNilBig
      | VStr n \<Rightarrow> (case Atoi n of None \<Rightarrow> Inr (VFloat math_NaN) | Some i \<Rightarrow> Inr (VInt i))
      | VObj m \<Rightarrow> Inr (VFloat math_NaN)
      | VThis \<Rightarrow> Inr (VFloat math_NaN)
      | _ \<Rightarrow> Inl (UnaryNotSupported SK_Plus))"

definition resolveMinusUnaryExpression :: "lib \<Rightarrow> val \<Rightarrow> error + val" where
  "resolveMinusUnaryExpression L v =
     (case v of
        VNum n \<Rightarrow> Inr (VNum (big_Neg L n))
      | VNilBig \<Rightarrow> Inl RuntimePanic
      | VStr n \<Rightarrow> (case Atoi n of None \<Rightarrow> Inr (VFloat math_NaN) | Some i \<Rightarrow> Inr (VInt (- i)))
      | VObj m \<Rightarrow> Inr (VFloat math_NaN)
      | VThis \<Rightarrow> Inr (VFloat math_NaN)
      | _ \<Rightarrow> Inl (UnaryNotSupported SK_Minus))"

definition resolveExclamationUnaryExpression :: "lib \<Rightarrow> val \<Rightarrow> error + val" where
  "resolveExclamationUnaryExpression L v =
     (case v of
        VBool n \<Rightarrow> Inr (VBool (\<not> n))
      | VNum n \<Rightarrow> boolResult True (toBool L v)
      | VNilBig \<Rightarrow> boolResult True (toBool L v)
      | VNil \<Rightarrow> Inr (VBool True)
      | _ \<Rightarrow> Inl (UnaryNotSupported SK_Exclamation))"

definition resolveExclamationExclamationUnaryExpression :: "lib \<Rightarrow> val \<Rightarrow> error + val" where
  "resolveExclamationExclamationUnaryExpression L v = boolResult False (toBool L v)"

text \<open>
  \<open>iv, _ := n.Int64(); return newDecimalBig().SetUint64(uint64(iv))\<close>:
  the conversion to \<open>uint64\<close> keeps the 64 bits.
\<close>

definition resolveTildeUnaryExpression :: "lib \<Rightarrow> val \<Rightarrow> error + val" where
  "resolveTildeUnaryExpression L v =
     (case v of
        VNum n \<Rightarrow> Inr (VNum (big_SetUint64 L (big_Int64 L n)))
      | VNilBig \<Rightarrow> Inl RuntimePanic
      | _ \<Rightarrow> Inl (UnaryNotSupported SK_Tilde))"

text \<open>The switch of \<open>resolvePrefixUnaryExpression\<close> on the operator token.\<close>

definition prefixUnarySwitch :: "lib \<Rightarrow> SyntaxKind \<Rightarrow> val \<Rightarrow> error + val" where
  "prefixUnarySwitch L tok v =
     (case tok of
        SK_Plus \<Rightarrow> resolvePlusUnaryExpression L v
      | SK_Minus \<Rightarrow> resolveMinusUnaryExpression L v
      | SK_Exclamation \<Rightarrow> resolveExclamationUnaryExpression L v
      | SK_Tilde \<Rightarrow> resolveTildeUnaryExpression L v
      | SK_ExclamationExclamation \<Rightarrow> resolveExclamationExclamationUnaryExpression L v
      | _ \<Rightarrow> Inl UnknownUnaryExpression)"

subsection \<open>Binary operators\<close>

text \<open>
  The two shapes the binary handlers share: both operands through
  \<open>convToString\<close>, and both through \<open>convToNumber\<close> into \<open>n1.Cmp(n2)\<close>.
\<close>

definition withStrings ::
  "lib \<Rightarrow> val \<Rightarrow> val \<Rightarrow> (string \<Rightarrow> string \<Rightarrow> val) \<Rightarrow> error + val" where
  "withStrings L v1 v2 f =
     (case convToString L v1 of
        Inl e \<Rightarrow> Inl e
      | Inr s1 \<Rightarrow> (case convToString L v2 of Inl e \<Rightarrow> Inl e | Inr s2 \<Rightarrow> Inr (f s1 s2)))"

definition withCmp :: "lib \<Rightarrow> val \<Rightarrow> val \<Rightarrow> (int \<Rightarrow> bool) \<Rightarrow> error + val" where
  "withCmp L v1 v2 f =
     (case ptr_Cmp L (convToNumber L v1) (convToNumber L v2) of
        Inl e \<Rightarrow> Inl e
      | Inr c \<Rightarrow> Inr (VBool (f c)))"

definition resolveLessThanBinaryExpressino :: "lib \<Rightarrow> val \<Rightarrow> val \<Rightarrow> error + val" where
  "resolveLessThanBinaryExpressino L v1 v2 =
     (case v1 of
        VStr s \<Rightarrow> withStrings L v1 v2 (\<lambda>s1 s2. VBool (str_less s1 s2))
      | _ \<Rightarrow> withCmp L v1 v2 (\<lambda>c. c = - 1))"

definition resolveGreaterThanBinaryExpressino :: "lib \<Rightarrow> val \<Rightarrow> val \<Rightarrow> error + val" where
  "resolveGreaterThanBinaryExpressino L v1 v2 =
     (case v1 of
        VStr s \<Rightarrow> withStrings L v1 v2 (\<lambda>s1 s2. VBool (str_less s2 s1))
      | _ \<Rightarrow> withCmp L v1 v2 (\<lambda>c. c = 1))"

definition resolveLessThanEqualsBinaryExpressino :: "lib \<Rightarrow> val \<Rightarrow> val \<Rightarrow> error + val" where
  "resolveLessThanEqualsBinaryExpressino L v1 v2 =
     (case v1 of
        VStr s \<Rightarrow> withStrings L v1 v2 (\<lambda>s1 s2. VBool (\<not> str_less s2 s1))
      | _ \<Rightarrow> withCmp L v1 v2 (\<lambda>c. c \<le> 0))"

definition resolveGreaterThanEqualsBinaryExpressino :: "lib \<Rightarrow> val \<Rightarrow> val \<Rightarrow> error + val" where
  "resolveGreaterThanEqualsBinaryExpressino L v1 v2 =
     (case v1 of
        VStr s \<Rightarrow> withStrings L v1 v2 (\<lambda>s1 s2. VBool (\<not> str_less s1 s2))
      | _ \<Rightarrow> withCmp L v1 v2 (\<lambda>c. c \<ge> 0))"

definition resolvePlusBinaryExpression :: "lib \<Rightarrow> val \<Rightarrow> val \<Rightarrow> error + val" where
  "resolvePlusBinaryExpression L v1 v2 =
     (case v1 of
        VStr s \<Rightarrow> withStrings L v1 v2 (\<lambda>s1 s2. VStr (s1 @ s2))
      | _ \<Rightarrow> ptr_Op (big_Add L) (convToNumber L v1) (convToNumber L v2))"

definition resolveMinusBinaryExpressino :: "lib \<Rightarrow> val \<Rightarrow> val \<Rightarrow> error + val" where
  "resolveMinusBinaryExpressino L v1 v2 =
     (case v1 of
        VStr s \<Rightarrow> withStrings L v1 v2 (\<lambda>s1 s2. VStr (s1 @ s2))
      | _ \<Rightarrow> ptr_Op (big_Sub L) (convToNumber L v1) (convToNumber L v2))"

definition resolveAsteriskBinaryExpressino :: "lib \<Rightarrow> val \<Rightarrow> val \<Rightarrow> error + val" where
  "resolveAsteriskBinaryExpressino L v1 v2 =
     ptr_Op (big_Mul L) (convToNumber L v1) (convToNumber L v2)"

definition resolveSlashBinaryExpression :: "lib \<Rightarrow> val \<Rightarrow> val \<Rightarrow> error + val" where
  "resolveSlashBinaryExpression L v1 v2 =
     ptr_Op (big_Quo L) (convToNumber L v1) (convToNumber L v2)"

definition resolvePercentBinaryExpression :: "lib \<Rightarrow> val \<Rightarrow> val \<Rightarrow> error + val" where
  "resolvePercentBinaryExpression L v1 v2 =
     ptr_Op (big_Rem L) (convToNumber L v1) (convToNumber L v2)"

text \<open>
  The bitwise handlers: \<open>i1, _ := convToNumber(v1).Int64()\<close>, the same for
  \<open>i2\<close>, and \<open>newDecimalBig().SetFloat64(float64(i1 op i2))\<close>.
\<close>

definition withInt64s ::
  "lib \<Rightarrow> val \<Rightarrow> val \<Rightarrow> (64 word \<Rightarrow> 64 word \<Rightarrow> 64 word) \<Rightarrow> error + val" where
  "withInt64s L v1 v2 f =
     (case ptr_Int64 L (convToNumber L v1) of
        Inl e \<Rightarrow> Inl e
      | Inr i1 \<Rightarrow>
          (case ptr_Int64 L (convToNumber L v2) of
             Inl e \<Rightarrow> Inl e
           | Inr i2 \<Rightarrow> Inr (VNum (big_SetFloat64 L (float64_of_int L (f i1 i2))))))"

definition resolveAmpersandBinaryExpression :: "lib \<Rightarrow> val \<Rightarrow> val \<Rightarrow> error + val" where
  "resolveAmpersandBinaryExpression L v1 v2 = withInt64s L v1 v2 (\<lambda>i1 i2. i1 AND i2)"

definition resolveBarBinaryExpression :: "lib \<Rightarrow> val \<Rightarrow> val \<Rightarrow> error + val" where
  "resolveBarBinaryExpression L v1 v2 = withInt64s L v1 v2 (\<lambda>i1 i2. i1 OR i2)"

definition resolveCaretBinaryExpression :: "lib \<Rightarrow> val \<Rightarrow> val \<Rightarrow> error + val" where
  "resolveCaretBinaryExpression L v1 v2 = withInt64s L v1 v2 (\<lambda>i1 i2. i1 XOR i2)"

text \<open>
  Go's \<open>v1 == v2\<close> on two interface values: the nil interface equals only
  itself; a bool or a string equals a value of the same type with the same
  content; the nil decimal, a nil pointer, equals only itself; every other
  pair is left to the library record (two decimals are compared as pointers
  there, and two slices, maps or functions panic).
\<close>

definition go_eq :: "lib \<Rightarrow> val \<Rightarrow> val \<Rightarrow> error + bool" where
  "go_eq L v1 v2 =
     (case v1 of
        VNil \<Rightarrow> Inr (v2 = VNil)
      | VBool a \<Rightarrow> (case v2 of VBool b \<Rightarrow> Inr (a = b) | _ \<Rightarrow> Inr False)
      | VStr a \<Rightarrow> (case v2 of VStr b \<Rightarrow> Inr (a = b) | _ \<Rightarrow> Inr False)
      | VNilBig \<Rightarrow> Inr (v2 = VNilBig)
      | _ \<Rightarrow> (case v2 of
                VNil \<Rightarrow> Inr False
              | VBool b \<Rightarrow> Inr False
              | VStr b \<Rightarrow> Inr False
              | VNilBig \<Rightarrow> Inr False
              | _ \<Rightarrow> iface_eq L v1 v2))"

text \<open>
  \<open>valueLikeEqualTo\<close> switches on the type of the left operand; the cases
  \<open>*decimal.Big\<close> (the nil decimal too) and \<open>bool\<close> compare the numbers of
  both operands with \<open>n1.Cmp(n2)\<close>, the case \<open>string\<close> their texts.
\<close>

definition cmpIsZero :: "lib \<Rightarrow> val \<Rightarrow> val \<Rightarrow> error + bool" where
  "cmpIsZero L v1 v2 =
     (case ptr_Cmp L (convToNumber L v1) (convToNumber L v2) of
        Inl e \<Rightarrow> Inl e
      | Inr c \<Rightarrow> Inr (c = 0))"

definition valueLikeEqualTo :: "lib \<Rightarrow> val \<Rightarrow> val \<Rightarrow> error + bool" where
  "valueLikeEqualTo L v1 v2 =
     (case v1 of
        VNum n \<Rightarrow> cmpIsZero L v1 v2
      | VNilBig \<Rightarrow> cmpIsZero L v1 v2
      | VBool b \<Rightarrow> cmpIsZero L v1 v2
      | VStr s \<Rightarrow>
          (case convToString L v1 of
             Inl e \<Rightarrow> Inl e
           | Inr s1 \<Rightarrow> (case convToString L v2 of Inl e \<Rightarrow> Inl e | Inr s2 \<Rightarrow> Inr (s1 = s2)))
      | _ \<Rightarrow> (if IsNull v1 \<and> IsNull v2 then Inr True else go_eq L v1 v2))"

text \<open>
  \<open>valueEqualTo\<close>: when the operands are not both null and not equal as
  interface values, two operands of one dynamic type are compared: two
  \<open>*decimal.Big\<close> (either may be the nil decimal) with \<open>n1.Cmp(n2)\<close>.
\<close>

definition valueEqualTo :: "lib \<Rightarrow> val \<Rightarrow> val \<Rightarrow> error + bool" where
  "valueEqualTo L v1 v2 =
     (if IsNull v1 \<and> IsNull v2 then Inr True
      else (case go_eq L v1 v2 of
              Inl e \<Rightarrow> Inl e
            | Inr True \<Rightarrow> Inr True
            | Inr False \<Rightarrow>
                (case v1 of
                   VNum n1 \<Rightarrow>
                     (case v2 of
                        VNum n2 \<Rightarrow> cmpIsZero L v1 v2
                      | VNilBig \<Rightarrow> cmpIsZero L v1 v2
                      | _ \<Rightarrow> Inr False)
                 | VNilBig \<Rightarrow>
                     (case v2 of
                        VNum n2 \<Rightarrow> cmpIsZero L v1 v2
                      | VNilBig \<Rightarrow> cmpIsZero L v1 v2
                      | _ \<Rightarrow> Inr False)
                 | VBool n1 \<Rightarrow> (case v2 of VBool n2 \<Rightarrow> Inr (n1 = n2) | _ \<Rightarrow> Inr False)
                 | VStr s1 \<Rightarrow> (case v2 of VStr s2 \<Rightarrow> Inr (s1 = s2) | _ \<Rightarrow> Inr False)
                 | _ \<Rightarrow> Inr False)))"

definition resolveEqualsEqualsBinaryExpression :: "lib \<Rightarrow> val \<Rightarrow> val \<Rightarrow> error + val" where
  "resolveEqualsEqualsBinaryExpression L v1 v2 = boolResult False (valueLikeEqualTo L v1 v2)"

definition resolveNotEqualsBinaryExpression :: "lib \<Rightarrow> val \<Rightarrow> val \<Rightarrow> error + val" where
  "resolveNotEqualsBinaryExpression L v1 v2 = boolResult True (valueLikeEqualTo L v1 v2)"

definition resolveEqualsEqualsEqualsBinaryExpression :: "lib \<Rightarrow> val \<Rightarrow> val \<Rightarrow> error + val" where
  "resolveEqualsEqualsEqualsBinaryExpression L v1 v2 = boolResult False (valueEqualTo L v1 v2)"

definition resolveNotEqualsEqualsBinaryExpression :: "lib \<Rightarrow> val \<Rightarrow> val \<Rightarrow> error + val" where
  "resolveNotEqualsEqualsBinaryExpression L v1 v2 = boolResult True (valueEqualTo L v1 v2)"

definition resolveAmpersandAmpersandBinaryExpression :: "lib \<Rightarrow> val \<Rightarrow> val \<Rightarrow> error + val" where
  "resolveAmpersandAmpersandBinaryExpression L v1 v2 =
     (case toBool L v1 of Inl e \<Rightarrow> Inl e | Inr t \<Rightarrow> (if t then Inr v2 else Inr v1))"

definition resolveBarBarBinaryExpression :: "lib \<Rightarrow> val \<Rightarrow> val \<Rightarrow> error + val" where
  "resolveBarBarBinaryExpression L v1 v2 =
     (case toBool L v1 of Inl e \<Rightarrow> Inl e | Inr t \<Rightarrow> (if \<not> t then Inr v2 else Inr v1))"

definition resolveCommaBinaryExpression :: "val \<Rightarrow> val \<Rightarrow> error + val" where
  "resolveCommaBinaryExpression v1 v2 = Inr v2"

text \<open>
  The second switch of \<open>resolveBinaryExpression\<close>, on the operator token, once
  both operands have a value. A token without a case falls out of the switch
  to \<open>return nil, nil\<close>.
\<close>

definition binarySwitch :: "lib \<Rightarrow> SyntaxKind \<Rightarrow> val \<Rightarrow> val \<Rightarrow> error + val" where
  "binarySwitch L tok v1 v2 =
     (case tok of
        SK_LessThan \<Rightarrow> resolveLessThanBinaryExpressino L v1 v2
      | SK_GreaterThan \<Rightarrow> resolveGreaterThanBinaryExpressino L v1 v2
      | SK_LessThanEquals \<Rightarrow> resolveLessThanEqualsBinaryExpressino L v1 v2
      | SK_GreaterThanEquals \<Rightarrow> resolveGreaterThanEqualsBinaryExpressino L v1 v2
      | SK_Plus \<Rightarrow> resolvePlusBinaryExpression L v1 v2
      | SK_Minus \<Rightarrow> resolveMinusBinaryExpressino L v1 v2
      | SK_Asterisk \<Rightarrow> resolveAsteriskBinaryExpressino L v1 v2
      | SK_Slash \<Rightarrow> resolveSlashBinaryExpression L v1 v2
      | SK_Percent \<Rightarrow> resolvePercentBinaryExpression L v1 v2
      | SK_Ampersand \<Rightarrow> resolveAmpersandBinaryExpression L v1 v2
      | SK_Bar \<Rightarrow> resolveBarBinaryExpression L v1 v2
      | SK_Caret \<Rightarrow> resolveCaretBinaryExpression L v1 v2
      | SK_EqualsEquals \<Rightarrow> resolveEqualsEqualsBinaryExpression L v1 v2
      | SK_ExclamationEquals \<Rightarrow> resolveNotEqualsBinaryExpression L v1 v2
      | SK_EqualsEqualsEquals \<Rightarrow> resolveEqualsEqualsEqualsBinaryExpression L v1 v2
      | SK_ExclamationEqualsEquals \<Rightarrow> resolveNotEqualsEqualsBinaryExpression L v1 v2
      | SK_AmpersandAmpersand \<Rightarrow> resolveAmpersandAmpersandBinaryExpression L v1 v2
      | SK_BarBar \<Rightarrow> resolveBarBarBinaryExpression L v1 v2
      | SK_Comma \<Rightarrow> resolveCommaBinaryExpression v1 v2
      | _ \<Rightarrow> Inr VNil)"

subsection \<open>The evaluator\<close>

text \<open>
  The tail of \<open>resolve\<close>: an error of the node's function is returned,
  a result goes through \<open>formatInput\<close>.
\<close>

definition formatResult :: "lib \<Rightarrow> error + val \<Rightarrow> error + val" where
  "formatResult L x = (case x of Inl e \<Rightarrow> Inl e | Inr v \<Rightarrow> Inr (formatInput L v))"

definition typeofName :: "val \<Rightarrow> string" where
  "typeofName v =
     (case v of
        VBool b \<Rightarrow> ''boolean''
      | VStr s \<Rightarrow> ''string''
      | VNum n \<Rightarrow> ''number''
      | VNilBig \<Rightarrow> ''number''
      | _ \<Rightarrow> ''object'')"

text \<open>
  \<open>resolve\<close> evaluates a node on a runner and returns the result with the
  runner as the evaluation left it (an assignment made before an error stays).
  Each equation is the node's function of the source followed by the tail of
  \<open>resolve\<close>; \<open>resolveList\<close> is the loop over the elements of an array
  literal and over the arguments of a call, left to right, stopping at the
  first error.

  The equation of a binary node is \<open>resolveBinaryExpression\<close>: the
  assignment token goes to \<open>resolveEqualBinaryExpression\<close> first (the left
  side must be an identifier whose name starts with \<open>$\<close>, then the right
  side is evaluated and stored with \<open>SetThisValue\<close>); for every other token
  the left operand is evaluated, then the right operand, then the switch on
  the token is taken.
\<close>

fun resolve :: "lib \<Rightarrow> Runner \<Rightarrow> Expression \<Rightarrow> (error + val) \<times> Runner"
  and resolveList :: "lib \<Rightarrow> Runner \<Rightarrow> Expression list \<Rightarrow> (error + val list) \<times> Runner"
where
  "resolve L r (Identifier name) = (Inr (formatInput L (resolveIdentifier r name)), r)"
| "resolve L r (PrefixUnaryExpression tok operand) =
     (case resolve L r operand of
        (Inl err, r1) \<Rightarrow> (Inl err, r1)
      | (Inr v, r1) \<Rightarrow> (formatResult L (prefixUnarySwitch L tok v), r1))"
| "resolve L r (BinaryExpression left tok right) =
     (if tok = SK_Equals then
        (case left of
           Identifier identifierValue \<Rightarrow>
             (if HasPrefix identifierValue ''$'' then
                (case resolve L r right of
                   (Inl err, r1) \<Rightarrow> (Inl err, r1)
                 | (Inr v2, r1) \<Rightarrow> (Inr (formatInput L v2), SetThisValue r1 identifierValue v2))
              else (Inl (AssignLeftNotDollar identifierValue), r))
         | _ \<Rightarrow> (Inl AssignLeftNotIdentifier, r))
      else
        (case resolve L r left of
           (Inl err, r1) \<Rightarrow> (Inl err, r1)
         | (Inr v1, r1) \<Rightarrow>
             (case resolve L r1 right of
                (Inl err, r2) \<Rightarrow> (Inl err, r2)
              | (Inr v2, r2) \<Rightarrow> (formatResult L (binarySwitch L tok v1 v2), r2))))"
| "resolve L r (ArrayLiteralExpression elements) =
     (case resolveList L r elements of
        (Inl err, r1) \<Rightarrow> (Inl err, r1)
      | (Inr list, r1) \<Rightarrow> (Inr (formatInput L (VArr list)), r1))"
| "resolve L r (ParenthesizedExpression e) =
     (case resolve L r e of
        (Inl err, r1) \<Rightarrow> (Inl err, r1)
      | (Inr v, r1) \<Rightarrow> (Inr (formatInput L v), r1))"
| "resolve L r (LiteralExpression tok text) =
     (formatResult L (resolveLiteralExpression L r tok text), r)"
| "resolve L r (SelectorExpression e name assert) =
     (case resolve L r e of
        (Inl err, r1) \<Rightarrow> (Inl err, r1)
      | (Inr v, r1) \<Rightarrow>
          (if IsNull v \<and> assert then (Inl (NullAttribute name), r1)
           else (case getObjectValueFromKey r1 v name of
                   Inl err \<Rightarrow> (Inl err, r1)
                 | Inr x \<Rightarrow> (Inr (formatInput L (formatNilValue x)), r1))))"
| "resolve L r (CallExpression callee arguments ddd) =
     (case resolve L r callee of
        (Inl err, r1) \<Rightarrow> (Inl err, r1)
      | (Inr f, r1) \<Rightarrow>
          (case resolveCallNames callee of
             Inl err \<Rightarrow> (Inl err, r1)
           | Inr names \<Rightarrow>
               (case resolveList L r1 arguments of
                  (Inl err, r2) \<Rightarrow> (Inl err, r2)
                | (Inr args, r2) \<Rightarrow>
                    (formatResult L (callFunction L f (Join names ''.'') args ddd), r2))))"
| "resolve L r (ConditionalExpression condition whenTrue whenFalse) =
     (case resolve L r condition of
        (Inl err, r1) \<Rightarrow> (Inl err, r1)
      | (Inr cond, r1) \<Rightarrow>
          (case toBool L cond of
             Inl err \<Rightarrow> (Inl err, r1)
           | Inr t \<Rightarrow>
               (if t then
                  (case resolve L r1 whenTrue of
                     (Inl err, r2) \<Rightarrow> (Inl err, r2)
                   | (Inr v, r2) \<Rightarrow> (Inr (formatInput L v), r2))
                else
                  (case resolve L r1 whenFalse of
                     (Inl err, r2) \<Rightarrow> (Inl err, r2)
                   | (Inr v, r2) \<Rightarrow> (Inr (formatInput L v), r2)))))"
| "resolve L r (TypeOfExpression e) =
     (case resolve L r e of
        (Inl err, r1) \<Rightarrow> (Inl err, r1)
      | (Inr v, r1) \<Rightarrow> (Inr (formatInput L (VStr (typeofName v))), r1))"
| "resolveList L r [] = (Inr [], r)"
| "resolveList L r (e # es) =
     (case resolve L r e of
        (Inl err, r1) \<Rightarrow> (Inl err, r1)
      | (Inr v, r1) \<Rightarrow>
          (case resolveList L r1 es of
             (Inl err, r2) \<Rightarrow> (Inl err, r2)
           | (Inr vs, r2) \<Rightarrow> (Inr (v # vs), r2)))"

text \<open>The public entry: the result of \<open>resolve\<close> goes through \<open>try2Float64\<close>.\<close>

definition Resolve :: "lib \<Rightarrow> Runner \<Rightarrow> Expression \<Rightarrow> (error + val) \<times> Runner" where
  "Resolve L r v =
     (case resolve L r v of
        (Inl err, r1) \<Rightarrow> (Inl err, r1)
      | (Inr res, r1) \<Rightarrow> (try2Float64 L res, r1))"

subsection \<open>Built-in functions\<close>

text \<open>\<open>funRound\<close>: \<open>return newDecimalBig().Round(0), nil\<close>.\<close>

definition funRound :: "lib \<Rightarrow> big \<Rightarrow> error + big" where
  "funRound L v = Inr (big_Round L (newDecimalBig L) 0)"

section \<open>A reference instance of the libraries\<close>

text \<open>
  The record \<open>refLib\<close> is used where an example is evaluated on concrete
  input. Its decimal arithmetic is exact (sums, differences, products and
  remainders are not rounded to a context precision; a quotient is cut after
  34 further digits); comparison with a NaN gives 0; \<open>Int64\<close> truncates
  towards zero and gives 0 outside the 64-bit range and on an infinity or a
  NaN; a conversion to \<open>float64\<close> rounds to the nearest float, ties to even.
  It compares two decimals, as pointers, unequal, invokes no function (every
  call fails) and prints the values other than nil, bools, strings and
  decimals as a tag of their kind. \<open>String()\<close> on the nil decimal is the
  text \<open><nil>\<close>, and \<open>Cmp\<close> of the nil decimal with itself is 0.
\<close>

function bitlen :: "int \<Rightarrow> int" where
  "bitlen n = (if n \<le> 0 then 0 else 1 + bitlen (n div 2))"
  by pat_completeness auto
termination
  by (relation "measure nat") auto

declare bitlen.simps [simp del]

definition f64_round :: "bool \<Rightarrow> int \<Rightarrow> int \<Rightarrow> float64" where
  "f64_round neg num den =
     (if num = 0 then F64 0 0
      else
        (let k1 = bitlen num - bitlen den - 52;
             k2 = (if num * 2 ^ nat (- k1) \<ge> den * 2 ^ nat k1 * 2 ^ 52 then k1 else k1 - 1);
             k = max k2 (- 1074);
             n' = num * 2 ^ nat (- k);
             d' = den * 2 ^ nat k;
             q = n' div d';
             rm = n' mod d';
             q' = (if 2 * rm > d' \<or> (2 * rm = d' \<and> odd q) then q + 1 else q);
             k' = (if q' = 2 ^ 53 then k + 1 else k);
             q'' = (if q' = 2 ^ 53 then 2 ^ 52 else q')
         in if k' + 52 > 1023 then F64Inf neg
            else F64 (if neg then - q'' else q'') k'))"

definition ref_float64_of_int :: "64 word \<Rightarrow> float64" where
  "ref_float64_of_int w = f64_round (sint w < 0) \<bar>sint w\<bar> 1"

definition ref_Float64 :: "big \<Rightarrow> float64" where
  "ref_Float64 x =
     (case x of
        BFin c e \<Rightarrow> f64_round (c < 0) (\<bar>c\<bar> * 10 ^ nat e) (10 ^ nat (- e))
      | BInf s \<Rightarrow> F64Inf s
      | BNaN \<Rightarrow> F64NaN)"

definition ref_SetFloat64 :: "float64 \<Rightarrow> big" where
  "ref_SetFloat64 f =
     (case f of
        F64 m e \<Rightarrow> (if e \<ge> 0 then BFin (m * 2 ^ nat e) 0 else BFin (m * 5 ^ nat (- e)) e)
      | F64Inf s \<Rightarrow> BInf s
      | F64NaN \<Rightarrow> BNaN)"

definition ref_SetUint64 :: "64 word \<Rightarrow> big" where
  "ref_SetUint64 w = BFin (uint w) 0"

definition lowerChar :: "char \<Rightarrow> char" where
  "lowerChar c =
     (if 65 \<le> (of_char c :: nat) \<and> (of_char c :: nat) \<le> 90
      then char_of ((of_char c :: nat) + 32) else c)"

definition digitsValue :: "string \<Rightarrow> int" where
  "digitsValue ds = foldl (\<lambda>a c. a * 10 + (int (of_char c) - 48)) 0 ds"

definition ref_SetString :: "string \<Rightarrow> big option" where
  "ref_SetString s =
     (let neg = (case s of [] \<Rightarrow> False | c # cs \<Rightarrow> c = CHR ''-'');
          body = (case s of [] \<Rightarrow> []
                  | c # cs \<Rightarrow> if c = CHR ''-'' \<or> c = CHR ''+'' then cs else s);
          low = map lowerChar body;
          ip = takeWhile isDigitChar body;
          r1 = dropWhile isDigitChar body;
          fp = (case r1 of [] \<Rightarrow> []
                | c # cs \<Rightarrow> if c = CHR ''.'' then takeWhile isDigitChar cs else []);
          r2 = (case r1 of [] \<Rightarrow> []
                | c # cs \<Rightarrow> if c = CHR ''.'' then dropWhile isDigitChar cs else r1);
          coef = (if neg then - digitsValue (ip @ fp) else digitsValue (ip @ fp))
      in if low = ''nan'' \<or> low = ''qnan'' \<or> low = ''snan'' then Some BNaN
         else if low = ''inf'' \<or> low = ''infinity'' then Some (BInf neg)
         else if ip = [] \<and> fp = [] then None
         else (case r2 of
                 [] \<Rightarrow> Some (BFin coef (- int (length fp)))
               | c # cs \<Rightarrow>
                   (if c = CHR ''e'' \<or> c = CHR ''E''
                    then (case Atoi cs of
                            None \<Rightarrow> None
                          | Some x \<Rightarrow> Some (BFin coef (sint x - int (length fp))))
                    else None)))"

definition ref_Neg :: "big \<Rightarrow> big" where
  "ref_Neg x = (case x of BFin c e \<Rightarrow> BFin (- c) e | BInf s \<Rightarrow> BInf (\<not> s) | BNaN \<Rightarrow> BNaN)"

definition ref_Add :: "big \<Rightarrow> big \<Rightarrow> big" where
  "ref_Add x y =
     (case x of
        BNaN \<Rightarrow> BNaN
      | BInf s \<Rightarrow> (case y of BNaN \<Rightarrow> BNaN
                    | BInf t \<Rightarrow> (if s = t then BInf s else BNaN)
                    | BFin c e \<Rightarrow> BInf s)
      | BFin c1 e1 \<Rightarrow>
          (case y of
             BNaN \<Rightarrow> BNaN
           | BInf t \<Rightarrow> BInf t
           | BFin c2 e2 \<Rightarrow>
               (let m = min e1 e2
                in BFin (c1 * 10 ^ nat (e1 - m) + c2 * 10 ^ nat (e2 - m)) m)))"

definition ref_Sub :: "big \<Rightarrow> big \<Rightarrow> big" where
  "ref_Sub x y = ref_Add x (ref_Neg y)"

definition ref_Mul :: "big \<Rightarrow> big \<Rightarrow> big" where
  "ref_Mul x y =
     (case x of
        BNaN \<Rightarrow> BNaN
      | BInf s \<Rightarrow> (case y of BNaN \<Rightarrow> BNaN
                    | BInf t \<Rightarrow> BInf (s \<noteq> t)
                    | BFin c e \<Rightarrow> (if c = 0 then BNaN else BInf (s \<noteq> (c < 0))))
      | BFin c1 e1 \<Rightarrow>
          (case y of
             BNaN \<Rightarrow> BNaN
           | BInf t \<Rightarrow> (if c1 = 0 then BNaN else BInf (t \<noteq> (c1 < 0)))
           | BFin c2 e2 \<Rightarrow> BFin (c1 * c2) (e1 + e2)))"

definition truncDiv :: "int \<Rightarrow> int \<Rightarrow> int" where
  "truncDiv a b = sgn a * sgn b * (\<bar>a\<bar> div \<bar>b\<bar>)"

definition ref_Quo :: "big \<Rightarrow> big \<Rightarrow> big" where
  "ref_Quo x y =
     (case x of
        BNaN \<Rightarrow> BNaN
      | BInf s \<Rightarrow> (case y of BNaN \<Rightarrow> BNaN
                    | BInf t \<Rightarrow> BNaN
                    | BFin c e \<Rightarrow> BInf (s \<noteq> (c < 0)))
      | BFin c1 e1 \<Rightarrow>
          (case y of
             BNaN \<Rightarrow> BNaN
           | BInf t \<Rightarrow> BFin 0 0
           | BFin c2 e2 \<Rightarrow>
               (if c2 = 0 then (if c1 = 0 then BNaN else BInf (c1 < 0))
                else BFin (truncDiv (c1 * 10 ^ 34) c2) (e1 - e2 - 34))))"

definition ref_Rem :: "big \<Rightarrow> big \<Rightarrow> big" where
  "ref_Rem x y =
     (case x of
        BNaN \<Rightarrow> BNaN
      | BInf s \<Rightarrow> BNaN
      | BFin c1 e1 \<Rightarrow>
          (case y of
             BNaN \<Rightarrow> BNaN
           | BInf t \<Rightarrow> BFin c1 e1
           | BFin c2 e2 \<Rightarrow>
               (if c2 = 0 then BNaN
                else (let m = min e1 e2;
                          a = c1 * 10 ^ nat (e1 - m);
                          b = c2 * 10 ^ nat (e2 - m)
                      in BFin (a - b * truncDiv a b) m))))"

definition ref_Cmp :: "big \<Rightarrow> big \<Rightarrow> int" where
  "ref_Cmp x y =
     (case x of
        BNaN \<Rightarrow> 0
      | BInf s \<Rightarrow> (case y of BNaN \<Rightarrow> 0
                    | BInf t \<Rightarrow> (if s = t then 0 else if s then - 1 else 1)
                    | BFin c e \<Rightarrow> (if s then - 1 else 1))
      | BFin c1 e1 \<Rightarrow>
          (case y of
             BNaN \<Rightarrow> 0
           | BInf t \<Rightarrow> (if t then 1 else - 1)
           | BFin c2 e2 \<Rightarrow>
               (let m = min e1 e2;
                    a = c1 * 10 ^ nat (e1 - m);
                    b = c2 * 10 ^ nat (e2 - m)
                in if a < b then - 1 else if a = b then 0 else 1)))"

definition ref_Int64 :: "big \<Rightarrow> 64 word" where
  "ref_Int64 x =
     (case x of
        BFin c e \<Rightarrow>
          (let t = truncDiv (c * 10 ^ nat e) (10 ^ nat (- e))
           in if - (2 ^ 63) \<le> t \<and> t < 2 ^ 63 then word_of_int t else 0)
      | _ \<Rightarrow> 0)"

function decimalDigits :: "int \<Rightarrow> string" where
  "decimalDigits n =
     (if n < 10 then [''0123456789'' ! nat n]
      else decimalDigits (n div 10) @ [''0123456789'' ! nat (n mod 10)])"
  by pat_completeness auto
termination
  by (relation "measure nat") auto

declare decimalDigits.simps [simp del]

text \<open>Rounding a coefficient to \<open>n\<close> digits, ties to even; no rounding for \<open>n \<le> 0\<close>.\<close>

definition roundDigits :: "int \<Rightarrow> int \<Rightarrow> int \<Rightarrow> int \<times> int" where
  "roundDigits c e n =
     (let len = int (length (decimalDigits \<bar>c\<bar>));
          d = len - n;
          p = 10 ^ nat d;
          q = \<bar>c\<bar> div p;
          rm = \<bar>c\<bar> mod p;
          q' = (if 2 * rm > p \<or> (2 * rm = p \<and> odd q) then q + 1 else q)
      in if n \<le> 0 \<or> d \<le> 0 then (c, e) else (sgn c * q', e + d))"

definition ref_Round :: "big \<Rightarrow> int \<Rightarrow> big" where
  "ref_Round x n =
     (case x of
        BFin c e \<Rightarrow> (case roundDigits c e n of (c', e') \<Rightarrow> BFin c' e')
      | _ \<Rightarrow> x)"

text \<open>The text of a finite decimal without exponent notation.\<close>

definition plainDecimal :: "int \<Rightarrow> int \<Rightarrow> string" where
  "plainDecimal c e =
     (let ds = decimalDigits \<bar>c\<bar>;
          sign = (if c < 0 then [CHR ''-''] else []);
          k = nat (- e)
      in if e \<ge> 0 then sign @ ds @ replicate (nat e) CHR ''0''
         else if length ds > k
           then sign @ take (length ds - k) ds @ [CHR ''.''] @ drop (length ds - k) ds
         else sign @ ''0.'' @ replicate (k - length ds) CHR ''0'' @ ds)"

definition ref_String :: "big \<Rightarrow> string" where
  "ref_String x =
     (case x of
        BFin c e \<Rightarrow>
          (let ds = decimalDigits \<bar>c\<bar>;
               adj = e + int (length ds) - 1
           in if e \<le> 0 \<and> adj \<ge> - 6 then plainDecimal c e
              else (if c < 0 then [CHR ''-''] else []) @ take 1 ds
                   @ (if length ds > 1 then [CHR ''.''] @ drop 1 ds else [])
                   @ [CHR ''E''] @ (if adj < 0 then [CHR ''-''] else [CHR ''+''])
                   @ decimalDigits \<bar>adj\<bar>)
      | BInf s \<Rightarrow> (if s then ''-Infinity'' else ''Infinity'')
      | BNaN \<Rightarrow> ''NaN'')"

text \<open>
  The shortest decimal text that reads back as the same float: the value is
  rounded to 1, 2, ... 17 digits until the rounded decimal converts back.
\<close>

function shortestDigits :: "float64 \<Rightarrow> int \<Rightarrow> int \<Rightarrow> nat \<Rightarrow> int \<times> int" where
  "shortestDigits f c e n =
     (case roundDigits c e (int n) of
        (c', e') \<Rightarrow>
          (if n \<ge> 17 \<or> ref_Float64 (BFin c' e') = f then (c', e')
           else shortestDigits f c e (Suc n)))"
  by pat_completeness auto
termination
  by (relation "measure (\<lambda>(f, c, e, n). 17 - n)") auto

declare shortestDigits.simps [simp del]

definition ref_FormatFloat :: "float64 \<Rightarrow> string" where
  "ref_FormatFloat f =
     (case f of
        F64NaN \<Rightarrow> ''NaN''
      | F64Inf s \<Rightarrow> (if s then ''-Inf'' else ''+Inf'')
      | F64 m e \<Rightarrow>
          (case ref_SetFloat64 f of
             BFin c x \<Rightarrow> (case shortestDigits f c x 1 of (c', x') \<Rightarrow> plainDecimal c' x')
           | _ \<Rightarrow> ''NaN''))"

definition ref_Sprintf_v :: "val \<Rightarrow> string" where
  "ref_Sprintf_v v =
     (case v of
        VInt n \<Rightarrow> plainDecimal (sint n) 0
      | VFloat f \<Rightarrow> ''<float64>''
      | VTime t \<Rightarrow> ''<time>''
      | VArr xs \<Rightarrow> ''<slice>''
      | VObj m \<Rightarrow> ''<map>''
      | VThis \<Rightarrow> ''<map>''
      | VFun g \<Rightarrow> ''<func>''
      | VCtx \<Rightarrow> ''<context>''
      | _ \<Rightarrow> ''<nil>'')"

definition ref_iface_eq :: "val \<Rightarrow> val \<Rightarrow> error + bool" where
  "ref_iface_eq v1 v2 =
     (case v1 of
        VTime a \<Rightarrow> (case v2 of VTime b \<Rightarrow> Inr (a = b) | _ \<Rightarrow> Inr False)
      | VInt a \<Rightarrow> (case v2 of VInt b \<Rightarrow> Inr (a = b) | _ \<Rightarrow> Inr False)
      | VArr a \<Rightarrow> (case v2 of VArr b \<Rightarrow> Inl RuntimePanic | _ \<Rightarrow> Inr False)
      | VObj a \<Rightarrow> (case v2 of VObj b \<Rightarrow> Inl RuntimePanic | VThis \<Rightarrow> Inl RuntimePanic
                    | _ \<Rightarrow> Inr False)
      | VThis \<Rightarrow> (case v2 of VObj b \<Rightarrow> Inl RuntimePanic | VThis \<Rightarrow> Inl RuntimePanic
                   | _ \<Rightarrow> Inr False)
      | VFun a \<Rightarrow> (case v2 of VFun b \<Rightarrow> Inl RuntimePanic | _ \<Rightarrow> Inr False)
      | VCtx \<Rightarrow> Inr (v2 = VCtx)
      | VNilPtr \<Rightarrow> Inr (v2 = VNilPtr)
      | _ \<Rightarrow> Inr False)"

definition refLib :: lib where
  "refLib =
     \<lparr>newDecimalBig = BFin 0 0,
      big_SetUint64 = ref_SetUint64,
      big_SetFloat64 = ref_SetFloat64,
      big_SetString = ref_SetString,
      big_SetNaN = BNaN,
      big_Neg = ref_Neg,
      big_Add = ref_Add,
      big_Sub = ref_Sub,
      big_Mul = ref_Mul,
      big_Quo = ref_Quo,
      big_Rem = ref_Rem,
      big_Round = ref_Round,
      big_Cmp = ref_Cmp,
      big_IsNaN = (\<lambda>x. x = BNaN),
      big_Int64 = ref_Int64,
      big_Float64 = ref_Float64,
      big_String = ref_String,
      nil_String = Inr ''<nil>'',
      nil_Cmp_nil = Inr 0,
      float64_of_int = ref_float64_of_int,
      FormatFloat = ref_FormatFloat,
      Sprintf_v = ref_Sprintf_v,
      iface_eq = ref_iface_eq,
      invoke = (\<lambda>g name args ddd. Inl (CallFailed name))\<rparr>"

section \<open>The reference extractor\<close>

text \<open>
  \<open>resolveSelecotrNames\<close>: the names along a chain of selectors that ends in
  an identifier; every other base is refused.
\<close>

fun resolveSelecotrNames :: "Expression \<Rightarrow> error + string list" where
  "resolveSelecotrNames (SelectorExpression e name a) =
     (case resolveSelecotrNames e of
        Inl err \<Rightarrow> Inl err
      | Inr arr \<Rightarrow> Inr (arr @ [name]))"
| "resolveSelecotrNames (Identifier v) = Inr [v]"
| "resolveSelecotrNames e = Inl SelectorNameNotSupported"

text \<open>
  The walk of \<open>referenceResovle\<close>. The list \<open>fs\<close> (its \<open>fields\<close>) is the state of the
  resolver; a walk that fails returns its error (the caller then drops the
  names gathered so far). A call walks its arguments only.
\<close>

fun referenceResovle_resolve :: "string list \<Rightarrow> Expression \<Rightarrow> error + string list"
  and referenceResovle_resolveList :: "string list \<Rightarrow> Expression list \<Rightarrow> error + string list"
where
  "referenceResovle_resolve fs (Identifier v) = Inr (fs @ [v])"
| "referenceResovle_resolve fs (PrefixUnaryExpression tok operand) =
     referenceResovle_resolve fs operand"
| "referenceResovle_resolve fs (BinaryExpression left tok right) =
     (case referenceResovle_resolve fs left of
        Inl err \<Rightarrow> Inl err
      | Inr fs1 \<Rightarrow> referenceResovle_resolve fs1 right)"
| "referenceResovle_resolve fs (ArrayLiteralExpression elements) =
     referenceResovle_resolveList fs elements"
| "referenceResovle_resolve fs (ParenthesizedExpression e) =
     referenceResovle_resolve fs e"
| "referenceResovle_resolve fs (LiteralExpression tok text) = Inr fs"
| "referenceResovle_resolve fs (SelectorExpression e name a) =
     (case resolveSelecotrNames (SelectorExpression e name a) of
        Inl err \<Rightarrow> Inl err
      | Inr names \<Rightarrow> Inr (fs @ [Join names ''.'']))"
| "referenceResovle_resolve fs (CallExpression callee arguments ddd) =
     referenceResovle_resolveList fs arguments"
| "referenceResovle_resolve fs (ConditionalExpression condition whenTrue whenFalse) =
     (case referenceResovle_resolve fs condition of
        Inl err \<Rightarrow> Inl err
      | Inr fs1 \<Rightarrow>
          (case referenceResovle_resolve fs1 whenTrue of
             Inl err \<Rightarrow> Inl err
           | Inr fs2 \<Rightarrow> referenceResovle_resolve fs2 whenFalse))"
| "referenceResovle_resolve fs (TypeOfExpression e) =
     referenceResovle_resolve fs e"
| "referenceResovle_resolveList fs [] = Inr fs"
| "referenceResovle_resolveList fs (e # es) =
     (case referenceResovle_resolve fs e of
        Inl err \<Rightarrow> Inl err
      | Inr fs1 \<Rightarrow> referenceResovle_resolveList fs1 es)"

text \<open>
  Modelled from the spec: \<open>stringsUniq\<close>, the helper that
  \<open>ResolveReferenceFields\<close> applies to the gathered names, is not under
  src/. The specification says of it: duplicates are removed before return;
  order is not significant. The model keeps the first occurrence of each
  name.
\<close>

definition stringsUniq :: "string list \<Rightarrow> string list" where
  "stringsUniq xs = foldl (\<lambda>acc x. if x \<in> set acc then acc else acc @ [x]) [] xs"

definition ResolveReferenceFields :: "Expression \<Rightarrow> error + string list" where
  "ResolveReferenceFields e =
     (case referenceResovle_resolve [] e of
        Inl err \<Rightarrow> Inl err
      | Inr fs \<Rightarrow> Inr (stringsUniq fs))"

definition ResolveReferenceFieldsNotLocal :: "Expression \<Rightarrow> error + string list" where
  "ResolveReferenceFieldsNotLocal e =
     (case ResolveReferenceFields e of
        Inl err \<Rightarrow> Inl err
      | Inr fs \<Rightarrow> Inr (filter (\<lambda>field. \<not> HasPrefix field ''$'') fs))"

subsection \<open>The names a formula reads, in the words of the specification\<close>

text \<open>
  A name chain is an identifier or a selector on a name chain; its dotted
  path joins the names with \<open>.\<close>. The names a formula reads are its
  identifiers and the dotted paths of its selectors; of a call only the
  arguments are read. \<open>selectorsSupported\<close> says that every selector met on
  the way is a name chain.
\<close>

fun isNameChain :: "Expression \<Rightarrow> bool" where
  "isNameChain (Identifier v) = True"
| "isNameChain (SelectorExpression e name a) = isNameChain e"
| "isNameChain e = False"

fun chainNames :: "Expression \<Rightarrow> string list" where
  "chainNames (Identifier v) = [v]"
| "chainNames (SelectorExpression e name a) = chainNames e @ [name]"
| "chainNames e = []"

fun readNames :: "Expression \<Rightarrow> string list"
  and readNamesList :: "Expression list \<Rightarrow> string list"
where
  "readNames (Identifier v) = [v]"
| "readNames (PrefixUnaryExpression tok operand) = readNames operand"
| "readNames (BinaryExpression left tok right) = readNames left @ readNames right"
| "readNames (ArrayLiteralExpression elements) = readNamesList elements"
| "readNames (ParenthesizedExpression e) = readNames e"
| "readNames (LiteralExpression tok text) = []"
| "readNames (SelectorExpression e name a) = [Join (chainNames e @ [name]) ''.'']"
| "readNames (CallExpression callee arguments ddd) = readNamesList arguments"
| "readNames (ConditionalExpression condition whenTrue whenFalse) =
     readNames condition @ readNames whenTrue @ readNames whenFalse"
| "readNames (TypeOfExpression e) = readNames e"
| "readNamesList [] = []"
| "readNamesList (e # es) = readNames e @ readNamesList es"

fun selectorsSupported :: "Expression \<Rightarrow> bool"
  and selectorsSupportedList :: "Expression list \<Rightarrow> bool"
where
  "selectorsSupported (Identifier v) = True"
| "selectorsSupported (PrefixUnaryExpression tok operand) = selectorsSupported operand"
| "selectorsSupported (BinaryExpression left tok right) =
     (selectorsSupported left \<and> selectorsSupported right)"
| "selectorsSupported (ArrayLiteralExpression elements) = selectorsSupportedList elements"
| "selectorsSupported (ParenthesizedExpression e) = selectorsSupported e"
| "selectorsSupported (LiteralExpression tok text) = True"
| "selectorsSupported (SelectorExpression e name a) = isNameChain e"
| "selectorsSupported (CallExpression callee arguments ddd) = selectorsSupportedList arguments"
| "selectorsSupported (ConditionalExpression condition whenTrue whenFalse) =
     (selectorsSupported condition \<and> selectorsSupported whenTrue \<and> selectorsSupported whenFalse)"
| "selectorsSupported (TypeOfExpression e) = selectorsSupported e"
| "selectorsSupportedList [] = True"
| "selectorsSupportedList (e # es) = (selectorsSupported e \<and> selectorsSupportedList es)"

section \<open>Properties\<close>

subsection \<open>Values leaving \<open>resolve\<close> are normalised\<close>

lemma formatInput_idem: "formatInput L (formatInput L v) = formatInput L v"
  by (cases v) (simp_all add: formatInput_def split: option.splits)

lemma formatResult_normal: "formatResult L x = Inr v \<Longrightarrow> formatInput L v = v"
  by (cases x) (auto simp: formatResult_def formatInput_idem)

lemma resolve_normal: "resolve L r e = (Inr v, r') \<Longrightarrow> formatInput L v = v"
  by (cases e)
     (auto simp: formatInput_idem dest: formatResult_normal
           split: prod.splits sum.splits if_splits Expression.splits)

lemma innerMap_dollar: "HasPrefix n ''$'' \<Longrightarrow> innerMap n = None"
  by (cases n) (auto simp: HasPrefix_def innerMap_def builtin_names_def)

lemma map_load_SetThisValue: "map_load (this (SetThisValue r n v)) n = v"
  by (simp add: SetThisValue_def map_load_def map_store_def)

subsection \<open>Logical operators\<close>

text \<open>
  Claim C1, as amended. The runner does not short-circuit: in \<open>a && b\<close>
  and in \<open>a || b\<close> it evaluates \<open>a\<close>, then \<open>b\<close> on the runner \<open>a\<close>
  left, whatever the value of \<open>a\<close>; an error of either operand is the
  result, and what \<open>b\<close> assigned stays. When both operands have a value,
  \<open>a && b\<close> is the unchanged value of \<open>a\<close> if that is falsy and the value of
  \<open>b\<close> otherwise, and \<open>a || b\<close> is the unchanged value of \<open>a\<close> if that is
  truthy and the value of \<open>b\<close> otherwise. The truth test is \<open>toBool\<close> on
  the value of \<open>a\<close>, made after both operands are evaluated; on a nil
  decimal it is a nil dereference, and the panic is the result.
\<close>

theorem C1_both_operands_evaluated:
  "resolve L r (BinaryExpression a SK_AmpersandAmpersand b) =
     (case resolve L r a of
        (Inl err, r1) \<Rightarrow> (Inl err, r1)
      | (Inr v1, r1) \<Rightarrow>
          (case resolve L r1 b of
             (Inl err, r2) \<Rightarrow> (Inl err, r2)
           | (Inr v2, r2) \<Rightarrow>
               (case toBool L v1 of
                  Inl err \<Rightarrow> (Inl err, r2)
                | Inr t \<Rightarrow> (Inr (if t then v2 else v1), r2))))
   \<and> resolve L r (BinaryExpression a SK_BarBar b) =
     (case resolve L r a of
        (Inl err, r1) \<Rightarrow> (Inl err, r1)
      | (Inr v1, r1) \<Rightarrow>
          (case resolve L r1 b of
             (Inl err, r2) \<Rightarrow> (Inl err, r2)
           | (Inr v2, r2) \<Rightarrow>
               (case toBool L v1 of
                  Inl err \<Rightarrow> (Inl err, r2)
                | Inr t \<Rightarrow> (Inr (if t then v1 else v2), r2))))"
  by (auto simp: binarySwitch_def formatResult_def
        resolveAmpersandAmpersandBinaryExpression_def resolveBarBarBinaryExpression_def
        dest: resolve_normal split: prod.splits sum.splits)

text \<open>
  Claim C1 as stated fails. In \<open>false && ($x = ~'a')\<close> the left operand is
  falsy and the error of the right operand is the result; in
  \<open>false && ($x = true)\<close> the result is \<open>false\<close> and \<open>$x\<close> is bound all the
  same; in \<open>true || ~'a'\<close> the left operand is truthy and the error of the
  right operand is the result.
\<close>

theorem C1_counterexample:
  "resolve refLib NewRunner
     (BinaryExpression (LiteralExpression SK_FalseKeyword ''false'') SK_AmpersandAmpersand
        (ParenthesizedExpression
           (BinaryExpression (Identifier ''$x'') SK_Equals
              (PrefixUnaryExpression SK_Tilde (LiteralExpression SK_StringLiteral ''a'')))))
     = (Inl (UnaryNotSupported SK_Tilde), NewRunner)
   \<and> resolve refLib NewRunner
     (BinaryExpression (LiteralExpression SK_FalseKeyword ''false'') SK_AmpersandAmpersand
        (ParenthesizedExpression
           (BinaryExpression (Identifier ''$x'') SK_Equals
              (LiteralExpression SK_TrueKeyword ''true''))))
     = (Inr (VBool False), SetThisValue NewRunner ''$x'' (VBool True))
   \<and> resolve refLib NewRunner
     (BinaryExpression (LiteralExpression SK_TrueKeyword ''true'') SK_BarBar
        (PrefixUnaryExpression SK_Tilde (LiteralExpression SK_StringLiteral ''a'')))
     = (Inl (UnaryNotSupported SK_Tilde), NewRunner)"
  by code_simp

subsection \<open>Loose equality with null\<close>

text \<open>
  With null on the left, \<open>==\<close> takes the default branch of
  \<open>valueLikeEqualTo\<close>: the result is whether the right operand is null.
  With a number on the left, null on the right is coerced to the decimal 0
  by \<open>convToNumber\<close>, for every library.
\<close>

lemma null_equals:
  "resolveEqualsEqualsBinaryExpression L VNil v = Inr (VBool (IsNull v))"
  by (cases v)
     (simp_all add: resolveEqualsEqualsBinaryExpression_def valueLikeEqualTo_def boolResult_def
        go_eq_def IsNull_def)

lemma number_equals_null:
  "resolveEqualsEqualsBinaryExpression L (VNum n) VNil =
     Inr (VBool (big_Cmp L n (big_SetUint64 L 0) = 0))"
  by (simp add: resolveEqualsEqualsBinaryExpression_def valueLikeEqualTo_def boolResult_def
        cmpIsZero_def ptr_Cmp_def convToNumber_def IsNull_def)

text \<open>
  Claim C2 on the code: \<open>valueLikeEqualTo\<close> switches on the type of the left
  operand and coerces a null on the right to that type, so \<open>0 == null\<close>,
  \<open>false == null\<close> and \<open>'<nil>' == null\<close> evaluate to true, where the claim
  gives false; the same operands the other way round, \<open>null == 0\<close>,
  \<open>null == false\<close> and \<open>null == '<nil>'\<close>, evaluate to false.
\<close>

theorem C2_null_on_the_right_is_coerced:
  "resolve refLib NewRunner
     (BinaryExpression (LiteralExpression SK_NumberLiteral ''0'') SK_EqualsEquals
        (LiteralExpression SK_NullKeyword ''null''))
     = (Inr (VBool True), NewRunner)
   \<and> resolve refLib NewRunner
     (BinaryExpression (LiteralExpression SK_FalseKeyword ''false'') SK_EqualsEquals
        (LiteralExpression SK_NullKeyword ''null''))
     = (Inr (VBool True), NewRunner)
   \<and> resolve refLib NewRunner
     (BinaryExpression (LiteralExpression SK_StringLiteral ''<nil>'') SK_EqualsEquals
        (LiteralExpression SK_NullKeyword ''null''))
     = (Inr (VBool True), NewRunner)
   \<and> resolve refLib NewRunner
     (BinaryExpression (LiteralExpression SK_NullKeyword ''null'') SK_EqualsEquals
        (LiteralExpression SK_NumberLiteral ''0''))
     = (Inr (VBool False), NewRunner)
   \<and> resolve refLib NewRunner
     (BinaryExpression (LiteralExpression SK_NullKeyword ''null'') SK_EqualsEquals
        (LiteralExpression SK_FalseKeyword ''false''))
     = (Inr (VBool False), NewRunner)
   \<and> resolve refLib NewRunner
     (BinaryExpression (LiteralExpression SK_NullKeyword ''null'') SK_EqualsEquals
        (LiteralExpression SK_StringLiteral ''<nil>''))
     = (Inr (VBool False), NewRunner)"
  by code_simp

subsection \<open>The operator \<open>??\<close>\<close>

lemma binarySwitch_QuestionQuestion: "binarySwitch L SK_QuestionQuestion v1 v2 = Inr VNil"
  by (simp add: binarySwitch_def)

lemma QuestionQuestion_is_nil:
  "resolve L r a = (Inr v1, r1) \<Longrightarrow> resolve L r1 b = (Inr v2, r2) \<Longrightarrow>
   resolve L r (BinaryExpression a SK_QuestionQuestion b) = (Inr VNil, r2)"
  by (simp add: binarySwitch_QuestionQuestion formatResult_def formatInput_def)

text \<open>
  Claim C3 on the code: the switch of \<open>resolveBinaryExpression\<close> has no case
  for the token \<open>??\<close>, so \<open>1 ?? 2\<close> and \<open>null ?? 2\<close> both evaluate to null,
  where the claim gives 1 and 2.
\<close>

theorem C3_question_question_evaluates_to_nil:
  "resolve refLib NewRunner
     (BinaryExpression (LiteralExpression SK_NumberLiteral ''1'') SK_QuestionQuestion
        (LiteralExpression SK_NumberLiteral ''2''))
     = (Inr VNil, NewRunner)
   \<and> resolve refLib NewRunner
     (BinaryExpression (LiteralExpression SK_NullKeyword ''null'') SK_QuestionQuestion
        (LiteralExpression SK_NumberLiteral ''2''))
     = (Inr VNil, NewRunner)"
  by code_simp

subsection \<open>The operator \<open>-\<close>\<close>

lemma minus_string_left:
  "resolveMinusBinaryExpressino L (VStr s1) v2 =
     (case convToString L v2 of Inl e \<Rightarrow> Inl e | Inr s2 \<Rightarrow> Inr (VStr (s1 @ s2)))"
  by (simp add: resolveMinusBinaryExpressino_def withStrings_def convToString_def)

text \<open>
  Claim C4 on the code: with a string on the left, \<open>-\<close> concatenates, as
  \<open>+\<close> does; \<open>'5' - '3'\<close> evaluates to the string \<open>53\<close>, where the claim
  gives the number 2.
\<close>

theorem C4_minus_concatenates_strings:
  "resolve refLib NewRunner
     (BinaryExpression (LiteralExpression SK_StringLiteral ''5'') SK_Minus
        (LiteralExpression SK_StringLiteral ''3''))
     = (Inr (VStr ''53''), NewRunner)"
  by code_simp

subsection \<open>The operator \<open>~\<close>\<close>

lemma tilde_number:
  "resolveTildeUnaryExpression L (VNum n) = Inr (VNum (big_SetUint64 L (big_Int64 L n)))"
  by (simp add: resolveTildeUnaryExpression_def)

text \<open>
  Claim C5 on the code: \<open>~x\<close> converts the number to a 64-bit integer and
  back, and complements nothing; \<open>~0\<close> evaluates to 0 and \<open>~5\<close> to 5, where
  the claim gives -1 and -6.
\<close>

theorem C5_tilde_does_not_complement:
  "resolve refLib NewRunner
     (PrefixUnaryExpression SK_Tilde (LiteralExpression SK_NumberLiteral ''0''))
     = (Inr (VNum (BFin 0 0)), NewRunner)
   \<and> resolve refLib NewRunner
     (PrefixUnaryExpression SK_Tilde (LiteralExpression SK_NumberLiteral ''5''))
     = (Inr (VNum (BFin 5 0)), NewRunner)"
  by code_simp

subsection \<open>Assignment\<close>

text \<open>
  Claim C6, as amended. An assignment whose left side is not an identifier
  with a name beginning with \<open>$\<close> fails with the error of the assignment,
  and its right side is not evaluated. Otherwise the right side is
  evaluated: an error of the right side is the result and nothing is bound;
  a value of the right side is bound to the name and is the value of the
  assignment. The binding is read by a later \<open>resolve\<close> and by a later call
  of the public \<open>Resolve\<close> on the same runner.
\<close>

theorem C6_assignment:
  "resolve L r (BinaryExpression lhs SK_Equals e) =
     (case lhs of
        Identifier n \<Rightarrow>
          (if HasPrefix n ''$'' then
             (case resolve L r e of
                (Inl err, r1) \<Rightarrow> (Inl err, r1)
              | (Inr v, r1) \<Rightarrow> (Inr v, SetThisValue r1 n v))
           else (Inl (AssignLeftNotDollar n), r))
      | _ \<Rightarrow> (Inl AssignLeftNotIdentifier, r))
   \<and> (HasPrefix x ''$'' \<and> resolve L r e = (Inr v, r1) \<longrightarrow>
        resolve L r (BinaryExpression (Identifier x) SK_Equals e) = (Inr v, SetThisValue r1 x v)
        \<and> resolve L (SetThisValue r1 x v) (Identifier x) = (Inr v, SetThisValue r1 x v)
        \<and> Resolve L (SetThisValue r1 x v) (Identifier x) =
            (try2Float64 L v, SetThisValue r1 x v))"
proof -
  have eq: "resolve L r (BinaryExpression lhs SK_Equals e) =
     (case lhs of
        Identifier n \<Rightarrow>
          (if HasPrefix n ''$'' then
             (case resolve L r e of
                (Inl err, r1) \<Rightarrow> (Inl err, r1)
              | (Inr v, r1) \<Rightarrow> (Inr v, SetThisValue r1 n v))
           else (Inl (AssignLeftNotDollar n), r))
      | _ \<Rightarrow> (Inl AssignLeftNotIdentifier, r))"
    by (auto dest: resolve_normal split: prod.splits sum.splits Expression.splits)
  have later: "resolve L (SetThisValue r1 x v) (Identifier x) = (Inr v, SetThisValue r1 x v)"
    if "HasPrefix x ''$''" and "resolve L r e = (Inr v, r1)"
    using that
    by (simp add: resolveIdentifier_def innerMap_dollar map_load_SetThisValue resolve_normal)
  have bind: "resolve L r (BinaryExpression (Identifier x) SK_Equals e) =
      (Inr v, SetThisValue r1 x v)"
    if "HasPrefix x ''$''" and "resolve L r e = (Inr v, r1)"
    using that by (simp add: resolve_normal)
  show ?thesis
    using eq later bind by (simp add: Resolve_def)
qed

text \<open>
  A witness of C6 on the example of the specification: \<open>$x = 3\<close> on a new
  runner binds \<open>$x\<close>, and a second call on the runner it leaves reads
  \<open>$x + 4\<close> as 7.
\<close>

theorem C6_assignment_witness:
  "HasPrefix ''$x'' ''$''
   \<and> resolve refLib NewRunner (LiteralExpression SK_NumberLiteral ''3'')
       = (Inr (VNum (BFin 3 0)), NewRunner)
   \<and> resolve refLib NewRunner
        (BinaryExpression (Identifier ''$x'') SK_Equals (LiteralExpression SK_NumberLiteral ''3''))
       = (Inr (VNum (BFin 3 0)), SetThisValue NewRunner ''$x'' (VNum (BFin 3 0)))
   \<and> Resolve refLib (SetThisValue NewRunner ''$x'' (VNum (BFin 3 0))) (Identifier ''$x'')
       = (try2Float64 refLib (VNum (BFin 3 0)),
          SetThisValue NewRunner ''$x'' (VNum (BFin 3 0)))
   \<and> fst (resolve refLib (SetThisValue NewRunner ''$x'' (VNum (BFin 3 0)))
        (BinaryExpression (Identifier ''$x'') SK_Plus (LiteralExpression SK_NumberLiteral ''4'')))
       = Inr (VNum (BFin 7 0))"
proof -
  have h1: "HasPrefix ''$x'' ''$''"
    by code_simp
  have h2: "resolve refLib NewRunner (LiteralExpression SK_NumberLiteral ''3'')
       = (Inr (VNum (BFin 3 0)), NewRunner)"
    by code_simp
  have h3: "fst (resolve refLib (SetThisValue NewRunner ''$x'' (VNum (BFin 3 0)))
        (BinaryExpression (Identifier ''$x'') SK_Plus (LiteralExpression SK_NumberLiteral ''4'')))
       = Inr (VNum (BFin 7 0))"
    by code_simp
  from C6_assignment [of refLib NewRunner "Identifier ''$x''"
      "LiteralExpression SK_NumberLiteral ''3''" "''$x''" "VNum (BFin 3 0)" NewRunner]
    h1 h2 h3
  show ?thesis by simp
qed

text \<open>
  Claim C6 as stated fails: \<open>$x = ~'a'\<close> has a left side that is an
  identifier beginning with \<open>$\<close>, and fails with the error of its right
  side.
\<close>

theorem C6_counterexample:
  "HasPrefix ''$x'' ''$''
   \<and> resolve refLib NewRunner
     (BinaryExpression (Identifier ''$x'') SK_Equals
        (PrefixUnaryExpression SK_Tilde (LiteralExpression SK_StringLiteral ''a'')))
     = (Inl (UnaryNotSupported SK_Tilde), NewRunner)"
  by code_simp

subsection \<open>The public result and the arithmetic behind it\<close>








subsection \<open>The built-in \<open>round\<close>\<close>

text \<open>
  Claim C10. \<open>funRound\<close> does not look at its argument: its result is the
  fresh decimal of \<open>newDecimalBig\<close> rounded with \<open>Round(0)\<close>, which is the
  decimal 0 in the reference library.
\<close>

theorem C10_funRound_ignores_argument:
  "funRound L v = funRound L w
   \<and> funRound L v = Inr (big_Round L (newDecimalBig L) 0)
   \<and> funRound refLib v = Inr (BFin 0 0)"
  by (simp add: funRound_def refLib_def ref_Round_def roundDigits_def Let_def)

subsection \<open>The reference extractor\<close>

lemma resolveSelecotrNames_chain:
  "resolveSelecotrNames e =
     (if isNameChain e then Inr (chainNames e) else Inl SelectorNameNotSupported)"
  by (induction e rule: resolveSelecotrNames.induct) simp_all

lemma referenceResovle_resolve_eq:
  "referenceResovle_resolve fs e =
     (if selectorsSupported e then Inr (fs @ readNames e) else Inl SelectorNameNotSupported)"
  "referenceResovle_resolveList fs es =
     (if selectorsSupportedList es then Inr (fs @ readNamesList es)
      else Inl SelectorNameNotSupported)"
  by (induction fs e and fs es
        rule: referenceResovle_resolve_referenceResovle_resolveList.induct)
     (simp_all add: resolveSelecotrNames_chain)

lemma stringsUniq_foldl:
  "distinct acc \<Longrightarrow>
   distinct (foldl (\<lambda>acc x. if x \<in> set acc then acc else acc @ [x]) acc xs)
   \<and> set (foldl (\<lambda>acc x. if x \<in> set acc then acc else acc @ [x]) acc xs) = set acc \<union> set xs"
  by (induction xs arbitrary: acc) auto

lemma stringsUniq_set: "set (stringsUniq xs) = set xs"
  using stringsUniq_foldl [of "[]" xs] by (simp add: stringsUniq_def)

lemma stringsUniq_distinct: "distinct (stringsUniq xs)"
  using stringsUniq_foldl [of "[]" xs] by (simp add: stringsUniq_def)

text \<open>
  Claim C8, as amended. When every selector the walk meets is a chain of
  names ending in an identifier, \<open>ResolveReferenceFields\<close> returns, without
  duplicates, exactly the names the formula reads: its identifiers and the
  dotted path of each selector chain (the identifier a chain begins with is
  part of the path and is not listed on its own), of a call the names of the
  arguments only. When a selector has another base (\<open>this\<close>, a
  parenthesised expression, a call, a literal), it returns an error and no
  names. \<open>ResolveReferenceFieldsNotLocal\<close>, when it returns names, returns
  those of the names read that do not begin with \<open>$\<close>.
\<close>

theorem C8_reference_fields:
  "(selectorsSupported e \<longrightarrow>
      (\<exists>fs. ResolveReferenceFields e = Inr fs \<and> set fs = set (readNames e) \<and> distinct fs))
   \<and> (\<not> selectorsSupported e \<longrightarrow> ResolveReferenceFields e = Inl SelectorNameNotSupported)
   \<and> (ResolveReferenceFieldsNotLocal e = Inr ns \<longrightarrow>
      set ns = {n \<in> set (readNames e). \<not> HasPrefix n ''$''} \<and> distinct ns
      \<and> (\<forall>n \<in> set ns. \<not> HasPrefix n ''$''))"
  by (auto simp: ResolveReferenceFields_def ResolveReferenceFieldsNotLocal_def
        referenceResovle_resolve_eq stringsUniq_set stringsUniq_distinct split: if_splits)

text \<open>
  A witness of C8: \<open>person.name + $1 + run(a, $1)\<close> has the fields
  \<open>person.name\<close>, \<open>$1\<close> and \<open>a\<close>, of which \<open>$1\<close> is local; and the walk of
  \<open>(a).b\<close> fails.
\<close>

theorem C8_reference_fields_witness:
  "selectorsSupported
     (BinaryExpression
        (BinaryExpression (SelectorExpression (Identifier ''person'') ''name'' False) SK_Plus
           (Identifier ''$1''))
        SK_Plus
        (CallExpression (Identifier ''run'') [Identifier ''a'', Identifier ''$1''] False))
   \<and> ResolveReferenceFields
     (BinaryExpression
        (BinaryExpression (SelectorExpression (Identifier ''person'') ''name'' False) SK_Plus
           (Identifier ''$1''))
        SK_Plus
        (CallExpression (Identifier ''run'') [Identifier ''a'', Identifier ''$1''] False))
     = Inr [''person.name'', ''$1'', ''a'']
   \<and> ResolveReferenceFieldsNotLocal
     (BinaryExpression
        (BinaryExpression (SelectorExpression (Identifier ''person'') ''name'' False) SK_Plus
           (Identifier ''$1''))
        SK_Plus
        (CallExpression (Identifier ''run'') [Identifier ''a'', Identifier ''$1''] False))
     = Inr [''person.name'', ''a'']
   \<and> \<not> HasPrefix ''person.name'' ''$'' \<and> \<not> HasPrefix ''a'' ''$''
   \<and> \<not> selectorsSupported
         (SelectorExpression (ParenthesizedExpression (Identifier ''a'')) ''b'' False)
   \<and> ResolveReferenceFields
         (SelectorExpression (ParenthesizedExpression (Identifier ''a'')) ''b'' False)
       = Inl SelectorNameNotSupported"
proof -
  let ?e = "BinaryExpression
        (BinaryExpression (SelectorExpression (Identifier ''person'') ''name'' False) SK_Plus
           (Identifier ''$1''))
        SK_Plus
        (CallExpression (Identifier ''run'') [Identifier ''a'', Identifier ''$1''] False)"
  let ?d = "SelectorExpression (ParenthesizedExpression (Identifier ''a'')) ''b'' False"
  have h1: "selectorsSupported ?e"
    by simp
  have h2: "ResolveReferenceFields ?e = Inr [''person.name'', ''$1'', ''a'']"
    by code_simp
  have h3: "ResolveReferenceFieldsNotLocal ?e = Inr [''person.name'', ''a'']"
    by code_simp
  have h4: "\<not> selectorsSupported ?d"
    by simp
  from C8_reference_fields [of ?e "[''person.name'', ''a'']"] C8_reference_fields [of ?d]
    h1 h2 h3 h4
  show ?thesis by simp
qed

text \<open>
  Claim C8 as stated fails: for the formula \<open>this.name\<close> no list is
  returned, and for \<open>person.name\<close> the identifier \<open>person\<close> is not among the
  names returned.
\<close>

theorem C8_counterexample:
  "ResolveReferenceFields
     (SelectorExpression (LiteralExpression SK_ThisKeyword ''this'') ''name'' False)
     = Inl SelectorNameNotSupported
   \<and> ResolveReferenceFields (SelectorExpression (Identifier ''person'') ''name'' False)
     = Inr [''person.name'']"
  by code_simp

end
